theory Spec2Isabelle
  imports Main "HOL-Library.Word"
begin

section \<open>The argument parser of argparse.hpp\<close>

text \<open>
  A shallow embedding of the class \<open>ArgumentParser\<close> of \<^verbatim>\<open>src/argparse.hpp\<close>.
  Member functions take the parser as an explicit state and return the new one.
  Whatever ends a member function other than by returning is a value of \<open>failure\<close>:
  the exceptions the code throws, the \<open>exit(-5)\<close> of \<open>argumentError\<close>, and the reads
  beyond the end of a vector, for which C++ defines no behaviour.
  A data member \<open>x_\<close> of the class is the field \<open>x'\<close> of the record (a name cannot
  end with an underscore here), and the member \<open>help\<close> of an argument is \<open>help_text\<close>.
  \<open>size_t\<close> and the iterators' \<open>difference_type\<close> are taken as 64 bits wide and
  \<open>char\<close> as signed, as on x86-64. The counters of required arguments, which the code
  lets wrap, are words; the other sizes are natural numbers below \<open>2 ^ 64\<close>, and the
  conversions and the subtraction that can wrap are written out.
\<close>

subsection \<open>Failures\<close>

text \<open>
  The kinds name the messages of the calls of \<open>argumentError\<close>:
  \<^item> \<open>InvalidArgumentName\<close>: the three messages of \<open>verify\<close>;
  \<^item> \<open>TooManyInputs\<close>: "attempt to pass too many inputs to ...";
  \<^item> \<open>IncompleteArgument\<close>: "encountered argument ... when expecting more inputs to ...";
  \<^item> \<open>UnexpectedRequiredArgument\<close>: "encountered required argument ... when expecting more
    required arguments";
  \<^item> \<open>TooFewRemainingInputs\<close>: "too few inputs passed to argument ...";
  \<^item> \<open>UnexpectedArgumentSpecifier\<close>: "encountered argument specifier ... while parsing final
    required inputs";
  \<^item> \<open>MissingRequiredArguments\<close>: "too few required arguments passed to ...".
\<close>

datatype ErrorKind =
    InvalidArgumentName
  | TooManyInputs
  | IncompleteArgument
  | UnexpectedRequiredArgument
  | TooFewRemainingInputs
  | UnexpectedArgumentSpecifier
  | MissingRequiredArguments

datatype failure =
    Thrown_invalid_argument ErrorKind \<comment> \<open>\<open>throw std::invalid_argument(msg)\<close>\<close>
  | Exit ErrorKind \<comment> \<open>message on \<open>std::cerr\<close>, then \<open>exit(-5)\<close>\<close>
  | KeyNotFound \<comment> \<open>\<open>std::out_of_range("Key not found")\<close>\<close>
  | ValueNotFound \<comment> \<open>\<open>std::out_of_range("Value not found")\<close>\<close>
  | BadCast \<comment> \<open>\<open>std::bad_cast\<close>\<close>
  | Undefined \<comment> \<open>a read beyond the end of a vector\<close>

subsection \<open>Type-erased storage\<close>

text \<open>
  \<open>Any\<close> holds a \<open>Holder<std::string>\<close> or a \<open>Holder<std::vector<std::string>>\<close>; the
  parser never stores an empty \<open>Any\<close>. \<open>castTo<ValueType>()\<close> has the return type
  \<open>ValueType\<close>, not a reference: it hands out a copy of the held value, so that an
  assignment to its result, or a \<open>push_back\<close> on it, leaves the held value as it is.
  It throws \<open>std::bad_cast\<close> when the other of the two types is held. The conversions
  to \<open>int\<close> and \<open>double\<close> (\<open>std::stoi\<close>, \<open>std::stod\<close>) are not modelled.
\<close>

datatype Any = HeldString string | HeldVector "string list"

definition castTo_string :: "Any \<Rightarrow> failure + string" where
  "castTo_string content = (case content of HeldString held \<Rightarrow> Inr held | HeldVector _ \<Rightarrow> Inl BadCast)"

definition castTo_vector :: "Any \<Rightarrow> failure + string list" where
  "castTo_vector content = (case content of HeldVector held \<Rightarrow> Inr held | HeldString _ \<Rightarrow> Inl BadCast)"

subsection \<open>Strings\<close>

definition delimit :: "string \<Rightarrow> string" where
  "delimit nm = replicate (min (length nm) 2) (CHR ''-'') @ nm"

definition strip :: "string \<Rightarrow> string" where
  "strip nm =
     (let b0 = (if length nm > 0 then (if nm ! 0 = CHR ''-'' then 1 else 0) else 0);
          b1 = (if length nm > 3 then (if nm ! 1 = CHR ''-'' then 1 else 0) else 0)
      in drop (b0 + b1) nm)"

definition toupper :: "char \<Rightarrow> char" where
  \<comment> \<open>\<open>::toupper\<close> in the "C" locale\<close>
  "toupper c = (let n = (of_char c :: nat) in if 97 \<le> n \<and> n \<le> 122 then char_of (n - 32) else c)"

definition upper :: "string \<Rightarrow> string" where
  "upper inp = map toupper inp"

definition escape :: "string \<Rightarrow> string" where
  "escape inp = (if CHR '' '' \<in> set inp then [CHR 0x22] @ inp @ [CHR 0x22] else inp)"

definition basename :: "string \<Rightarrow> string" where
  \<comment> \<open>\<open>s.substr(s.find_last_of("\\/") + 1, s.length())\<close>; \<open>npos + 1\<close> is 0\<close>
  "basename path = rev (takeWhile (\<lambda>c. c \<noteq> CHR 0x5C \<and> c \<noteq> CHR ''/'') (rev path))"

subsection \<open>Integer conversions\<close>

definition size_t_of_char :: "char \<Rightarrow> nat" where
  \<comment> \<open>a \<open>char\<close> assigned to a \<open>size_t\<close>: the codes from 128 on are negative values, which
      the conversion to the unsigned type wraps around\<close>
  "size_t_of_char c = (let k = (of_char c :: nat) in if k < 128 then k else 2 ^ 64 - 256 + k)"

definition ptrdiff_of_size_t :: "nat \<Rightarrow> int" where
  \<comment> \<open>a \<open>size_t\<close> converted to the \<open>difference_type\<close> of \<open>iterator - n\<close>\<close>
  "ptrdiff_of_size_t n = sint (word_of_nat n :: 64 word)"

subsection \<open>Arguments\<close>

text \<open>
  The union of \<open>fixed_nargs\<close> and \<open>variable_nargs\<close> with its tag \<open>fixed\<close> is a datatype:
  the code reads \<open>fixed_nargs\<close> only where \<open>fixed\<close> holds and \<open>variable_nargs\<close> only where
  it does not.
\<close>

datatype nargs = Fixed nat | Variable char

record Argument =
  short_name :: string
  name :: string
  required :: bool
  default_value :: string
  help_text :: string
  arity :: nargs

definition default_Argument :: Argument where
  \<comment> \<open>the constructor \<open>Argument()\<close>\<close>
  "default_Argument =
     \<lparr>short_name = [], name = [], required = False, default_value = [], help_text = [],
      arity = Fixed 0\<rparr>"

definition new_Argument :: "string \<Rightarrow> string \<Rightarrow> bool \<Rightarrow> char \<Rightarrow> string \<Rightarrow> string \<Rightarrow> Argument" where
  \<comment> \<open>the constructor with six parameters; \<open>fixed_nargs = nargs\<close> converts the character
      to \<open>size_t\<close>\<close>
  "new_Argument sn nm req n dflt hlp =
     \<lparr>short_name = sn, name = nm, required = req, default_value = dflt, help_text = hlp,
      arity = (if n = CHR ''+'' \<or> n = CHR ''*'' then Variable n else Fixed (size_t_of_char n))\<rparr>"

definition fixed :: "Argument \<Rightarrow> bool" where
  "fixed a = (case arity a of Fixed _ \<Rightarrow> True | Variable _ \<Rightarrow> False)"

definition canonicalName :: "Argument \<Rightarrow> string" where
  "canonicalName a = (if name a = [] then short_name a else name a)"

definition toString :: "bool \<Rightarrow> Argument \<Rightarrow> string" where
  "toString named a =
     (let uname = (if name a = [] then upper (strip (short_name a)) else upper (strip (name a)));
          s1 = (if named \<and> \<not> required a then ''['' else []);
          s2 = s1 @ (if named then canonicalName a else []);
          s3 = (case arity a of
                  Fixed n \<Rightarrow>
                    (let N = min 3 n
                     in s2 @ concat (replicate N ('' '' @ uname)) @ (if N < n then '' ...'' else []))
                | Variable v \<Rightarrow>
                    s2 @ '' '' @ (if v = CHR ''*'' then ''['' else []) @ uname @ '' ''
                       @ (if v = CHR ''+'' then ''['' else []) @ uname @ ''...]'')
      in s3 @ (if named \<and> \<not> required a then '']'' else []))"

subsection \<open>The parser\<close>

type_synonym IndexMap = "string \<rightharpoonup> nat"

record ArgumentParser =
  index' :: IndexMap
  ignore_first' :: bool
  use_exceptions' :: bool
  required' :: "64 word"
  app_name' :: string
  final_name' :: string
  arguments' :: "Argument list"
  variables' :: "Any list"

definition new_ArgumentParser :: ArgumentParser where
  \<comment> \<open>the constructor \<open>ArgumentParser()\<close>\<close>
  "new_ArgumentParser =
     \<lparr>index' = Map.empty, ignore_first' = True, use_exceptions' = False, required' = 0,
      app_name' = [], final_name' = [], arguments' = [], variables' = []\<rparr>"

definition index_count :: "IndexMap \<Rightarrow> string \<Rightarrow> nat" where
  \<comment> \<open>\<open>index_.count(key)\<close>\<close>
  "index_count m k = (case m k of None \<Rightarrow> 0 | Some _ \<Rightarrow> 1)"

definition index_at :: "IndexMap \<Rightarrow> string \<Rightarrow> nat \<times> IndexMap" where
  \<comment> \<open>\<open>index_[key]\<close>: a key that is absent is inserted with the value 0\<close>
  "index_at m k = (case m k of None \<Rightarrow> (0, m(k \<mapsto> 0)) | Some v \<Rightarrow> (v, m))"

definition vec_at :: "'a list \<Rightarrow> nat \<Rightarrow> failure + 'a" where
  \<comment> \<open>\<open>v[i]\<close> on a \<open>std::vector\<close>, and \<open>*it\<close> on its iterator at position \<open>i\<close>\<close>
  "vec_at v i = (if i < length v then Inr (v ! i) else Inl Undefined)"

definition argumentError :: "ArgumentParser \<Rightarrow> ErrorKind \<Rightarrow> failure" where
  "argumentError s k = (if use_exceptions' s then Thrown_invalid_argument k else Exit k)"

definition insertArgument :: "Argument \<Rightarrow> ArgumentParser \<Rightarrow> ArgumentParser" where
  "insertArgument arg s =
     (let N = length (arguments' s);
          s1 = s\<lparr>arguments' := arguments' s @ [arg]\<rparr>;
          s2 = s1\<lparr>variables' := variables' s1 @
                 [if (case arity arg of Fixed n \<Rightarrow> n \<le> 1 | Variable _ \<Rightarrow> False)
                  then HeldString (default_value arg) else HeldVector []]\<rparr>;
          s3 = (if short_name arg \<noteq> [] then s2\<lparr>index' := (index' s2)(short_name arg \<mapsto> N)\<rparr> else s2);
          s4 = (if name arg \<noteq> [] then s3\<lparr>index' := (index' s3)(name arg \<mapsto> N)\<rparr> else s3)
      in if required arg \<and> default_value arg = [] then s4\<lparr>required' := required' s4 + 1\<rparr> else s4)"

definition verify :: "ArgumentParser \<Rightarrow> string \<Rightarrow> failure + string" where
  "verify s nm =
     (if nm = [] then Inl (argumentError s InvalidArgumentName)
      else if (length nm = 2 \<and> nm ! 0 \<noteq> CHR ''-'') \<or> length nm = 3
        then Inl (argumentError s InvalidArgumentName)
      else if length nm > 3 \<and> (nm ! 0 \<noteq> CHR ''-'' \<or> nm ! 1 \<noteq> CHR ''-'')
        then Inl (argumentError s InvalidArgumentName)
      else Inr nm)"

definition appName :: "string \<Rightarrow> ArgumentParser \<Rightarrow> ArgumentParser" where
  "appName nm s = s\<lparr>app_name' := nm\<rparr>"

definition addArgument :: "string \<Rightarrow> char \<Rightarrow> string \<Rightarrow> bool \<Rightarrow> string \<Rightarrow> ArgumentParser \<Rightarrow> failure + ArgumentParser" where
  \<comment> \<open>the overload with one name; it passes neither \<open>_default\<close> nor \<open>help\<close> on\<close>
  "addArgument nm n dflt req hlp s =
     (if length nm > 2
      then (case verify s nm of
              Inl e \<Rightarrow> Inl e
            | Inr v \<Rightarrow> Inr (insertArgument (new_Argument [] v req n [] []) s))
      else (case verify s nm of
              Inl e \<Rightarrow> Inl e
            | Inr v \<Rightarrow> Inr (insertArgument (new_Argument v [] req n [] []) s)))"

definition addArgument2 :: "string \<Rightarrow> string \<Rightarrow> char \<Rightarrow> string \<Rightarrow> bool \<Rightarrow> string \<Rightarrow> ArgumentParser \<Rightarrow> failure + ArgumentParser" where
  \<comment> \<open>the overload with a short and a long name\<close>
  "addArgument2 sn nm n dflt req hlp s =
     (case verify s sn of
        Inl e \<Rightarrow> Inl e
      | Inr vs \<Rightarrow>
          (case verify s nm of
             Inl e \<Rightarrow> Inl e
           | Inr vn \<Rightarrow> Inr (insertArgument (new_Argument vs vn req n dflt hlp) s)))"

definition addFinalArgument :: "string \<Rightarrow> char \<Rightarrow> string \<Rightarrow> bool \<Rightarrow> string \<Rightarrow> ArgumentParser \<Rightarrow> ArgumentParser" where
  "addFinalArgument nm n dflt req hlp s =
     (let s1 = s\<lparr>final_name' := delimit nm\<rparr>
      in insertArgument (new_Argument [] (final_name' s1) req n [] []) s1)"

definition ignoreFirstArgument :: "bool \<Rightarrow> ArgumentParser \<Rightarrow> ArgumentParser" where
  "ignoreFirstArgument b s = s\<lparr>ignore_first' := b\<rparr>"

definition useExceptions :: "bool \<Rightarrow> ArgumentParser \<Rightarrow> ArgumentParser" where
  "useExceptions b s = s\<lparr>use_exceptions' := b\<rparr>"

definition clear :: "ArgumentParser \<Rightarrow> ArgumentParser" where
  "clear s = s\<lparr>ignore_first' := True, required' := 0, index' := Map.empty,
               arguments' := [], variables' := []\<rparr>"

definition exists :: "string \<Rightarrow> ArgumentParser \<Rightarrow> bool" where
  "exists nm s = (index_count (index' s) (delimit nm) > 0)"

subsection \<open>Retrieval\<close>

definition count :: "string \<Rightarrow> ArgumentParser \<Rightarrow> (failure + nat) \<times> ArgumentParser" where
  "count nm s =
     (if index_count (index' s) (delimit nm) = 0 then (Inr 0, s)
      else
        (let (N, m) = index_at (index' s) (delimit nm); s1 = s\<lparr>index' := m\<rparr>
         in case vec_at (arguments' s1) N of
              Inl e \<Rightarrow> (Inl e, s1)
            | Inr arg \<Rightarrow>
                (case vec_at (variables' s1) N of
                   Inl e \<Rightarrow> (Inl e, s1)
                 | Inr var \<Rightarrow>
                     if fixed arg
                     then (case castTo_string var of
                             Inl e \<Rightarrow> (Inl e, s1)
                           | Inr str \<Rightarrow> (Inr (if str \<noteq> [] then 1 else 0), s1))
                     else (case castTo_vector var of
                             Inl e \<Rightarrow> (Inl e, s1)
                           | Inr vec \<Rightarrow> (Inr (length vec), s1)))))"

definition retrieve :: "(Any \<Rightarrow> failure + 'a) \<Rightarrow> string \<Rightarrow> ArgumentParser \<Rightarrow> (failure + 'a) \<times> ArgumentParser" where
  \<comment> \<open>\<open>retrieve<T>\<close>, with \<open>castTo<T>\<close> as its first parameter\<close>
  "retrieve cast nm s =
     (if index_count (index' s) (delimit nm) = 0 then (Inl KeyNotFound, s)
      else
        (case count nm s of
           (Inl e, s1) \<Rightarrow> (Inl e, s1)
         | (Inr c, s1) \<Rightarrow>
             if c \<noteq> 0 then (Inl ValueNotFound, s1)
             else
               (let (N, m) = index_at (index' s1) (delimit nm); s2 = s1\<lparr>index' := m\<rparr>
                in case vec_at (variables' s2) N of
                     Inl e \<Rightarrow> (Inl e, s2)
                   | Inr var \<Rightarrow> (cast var, s2))))"

subsection \<open>Usage text\<close>

definition wrap :: "nat \<Rightarrow> string \<Rightarrow> string \<times> nat \<Rightarrow> string \<times> nat" where
  \<comment> \<open>the block that follows each \<open>toString\<close> in \<open>usage\<close>: \<open>(help, linelength)\<close> is the
      stream written so far and the counter\<close>
  "wrap indent argstr hl =
     (case hl of (hlp, linelength) \<Rightarrow>
        if length argstr + linelength > 80
        then (hlp @ [CHR 0x0A] @ replicate indent (CHR '' '') @ argstr, 0)
        else (hlp @ argstr, linelength + length argstr))"

fun usage_required :: "string \<Rightarrow> nat \<Rightarrow> Argument list \<Rightarrow> string \<times> nat \<Rightarrow> string \<times> nat" where
  \<comment> \<open>the first loop of \<open>usage\<close>, over the arguments from the given one on\<close>
  "usage_required fin indent [] hl = hl"
| "usage_required fin indent (arg # rest) hl =
     (if \<not> required arg then usage_required fin indent rest hl
      else if name arg = fin then usage_required fin indent rest hl
      else usage_required fin indent rest
             (wrap indent (toString True arg) (fst hl @ '' '', snd hl)))"

fun usage_optional :: "string \<Rightarrow> nat \<Rightarrow> Argument list \<Rightarrow> string \<times> nat \<Rightarrow> string \<times> nat" where
  \<comment> \<open>the second loop of \<open>usage\<close>\<close>
  "usage_optional fin indent [] hl = hl"
| "usage_optional fin indent (arg # rest) hl =
     (if required arg then usage_optional fin indent rest hl
      else if name arg = fin then usage_optional fin indent rest hl
      else usage_optional fin indent rest
             (wrap indent (toString True arg) (fst hl @ '' '', snd hl)))"

definition usage :: "ArgumentParser \<Rightarrow> (failure + string) \<times> ArgumentParser" where
  "usage s =
     (let hlp = ''Usage: '' @ escape (app_name' s);
          indent = length hlp;
          hl1 = usage_required (final_name' s) indent (arguments' s) (hlp, 0);
          hl2 = usage_optional (final_name' s) indent (arguments' s) hl1
      in if final_name' s \<noteq> []
         then (let (N, m) = index_at (index' s) (final_name' s); s1 = s\<lparr>index' := m\<rparr>
               in case vec_at (arguments' s1) N of
                    Inl e \<Rightarrow> (Inl e, s1)
                  | Inr arg \<Rightarrow> (Inr (fst (wrap indent (toString False arg) hl2)), s1))
         else (Inr (fst hl2), s))"

subsection \<open>Parsing\<close>

text \<open>
  The working set of \<open>parse\<close> that its first loop changes. \<open>idx\<close> is the member
  \<open>index_\<close>, which \<open>operator[]\<close> may extend. The assignments and \<open>push_back\<close>s
  of the loops act on the copy that \<open>castTo\<close> returns, so the loops leave \<open>variables_\<close>
  as it is; what remains of them is the \<open>std::bad_cast\<close> of \<open>castTo\<close>.
\<close>

record parse_state =
  active :: Argument
  consumed :: nat
  nrequired :: "64 word"
  idx :: IndexMap

definition final_argument :: "ArgumentParser \<Rightarrow> failure + (Argument \<times> IndexMap)" where
  \<comment> \<open>\<open>final_name_.empty() ? Argument() : arguments_[index_[final_name_]]\<close>, with the index
      after the lookup\<close>
  "final_argument s =
     (if final_name' s = [] then Inr (default_Argument, index' s)
      else (let (N, m) = index_at (index' s) (final_name' s)
            in case vec_at (arguments' s) N of Inl e \<Rightarrow> Inl e | Inr a \<Rightarrow> Inr (a, m)))"

definition nrequired_of :: "ArgumentParser \<Rightarrow> Argument \<Rightarrow> 64 word" where
  "nrequired_of s fin = (if \<not> required fin then required' s else required' s - 1)"

definition nfinal_of :: "Argument \<Rightarrow> nat" where
  "nfinal_of fin =
     (if \<not> required fin then 0
      else (case arity fin of
              Fixed n \<Rightarrow> n
            | Variable v \<Rightarrow> (if v = CHR ''+'' then 1 else 0)))"

definition parse_token :: "ArgumentParser \<Rightarrow> string list \<Rightarrow> nat \<Rightarrow> nat \<Rightarrow> parse_state \<Rightarrow> failure + parse_state" where
  \<comment> \<open>the body of the first loop, with the iterator \<open>in\<close> at position \<open>i\<close>;
      \<open>argv.end() - in - nfinal - 1\<close> is computed in \<open>size_t\<close>\<close>
  "parse_token s argv nfinal i st =
     (let active_name = canonicalName (active st)
      in case vec_at argv i of
           Inl e \<Rightarrow> Inl e
         | Inr el \<Rightarrow>
             if index_count (idx st) el = 0
             then
               (if (case arity (active st) of Fixed n \<Rightarrow> n \<le> consumed st | Variable _ \<Rightarrow> False)
                then Inl (argumentError s TooManyInputs)
                else
                  (let (N, m) = index_at (idx st) active_name
                   in case vec_at (variables' s) N of
                        Inl e \<Rightarrow> Inl e
                      | Inr var \<Rightarrow>
                          (case (if arity (active st) = Fixed 1
                                 then map_sum id (\<lambda>_. ()) (castTo_string var)
                                 else map_sum id (\<lambda>_. ()) (castTo_vector var)) of
                             Inl e \<Rightarrow> Inl e
                           | Inr _ \<Rightarrow> Inr (st\<lparr>idx := m, consumed := consumed st + 1\<rparr>))))
             else
               (if (case arity (active st) of
                      Fixed n \<Rightarrow> n \<noteq> consumed st
                    | Variable v \<Rightarrow> v = CHR ''+'' \<and> consumed st < 1)
                then Inl (argumentError s IncompleteArgument)
                else
                  (let (N, m) = index_at (idx st) el
                   in case vec_at (arguments' s) N of
                        Inl e \<Rightarrow> Inl e
                      | Inr act \<Rightarrow>
                          (let remaining = (word_of_nat (length argv) - word_of_nat i
                                             - word_of_nat nfinal - 1 :: 64 word)
                           in if \<not> required act \<and> nrequired st > 0
                              then Inl (argumentError s UnexpectedRequiredArgument)
                              else if (case arity act of
                                         Fixed n \<Rightarrow> word_of_nat n > remaining
                                       | Variable v \<Rightarrow> v = CHR ''+'' \<and> remaining = 0)
                              then Inl (argumentError s TooFewRemainingInputs)
                              else Inr \<lparr>active = act, consumed = 0,
                                        nrequired = (if required act \<and> default_value act = []
                                                     then nrequired st - 1 else nrequired st),
                                        idx = m\<rparr>))))"

function parse_keys :: "ArgumentParser \<Rightarrow> string list \<Rightarrow> nat \<Rightarrow> nat \<Rightarrow> parse_state \<Rightarrow> failure + parse_state" where
  \<comment> \<open>the first loop, from position \<open>i\<close> on; iterators are compared as positions, and
      \<open>argv.end() - nfinal\<close> is the position of the end less the converted \<open>nfinal\<close>\<close>
  "parse_keys s argv nfinal i st =
     (if int i < int (length argv) - ptrdiff_of_size_t nfinal
      then (case parse_token s argv nfinal i st of
              Inl e \<Rightarrow> Inl e
            | Inr st' \<Rightarrow> parse_keys s argv nfinal (Suc i) st')
      else Inr st)"
  by pat_completeness auto
termination
  by (relation "measure (\<lambda>(s, argv, nfinal, i, st).
        nat (int (length argv) - ptrdiff_of_size_t nfinal) - i)") auto

function parse_final :: "ArgumentParser \<Rightarrow> string list \<Rightarrow> Argument \<Rightarrow> nat \<Rightarrow> IndexMap \<times> nat \<Rightarrow> failure + (IndexMap \<times> nat)" where
  \<comment> \<open>the second loop, from position \<open>i\<close> on, on the index and \<open>nfinal\<close>; it runs until
      \<open>in == argv.end()\<close>, and reads beyond the end when it starts behind it\<close>
  "parse_final s argv fin i mn =
     (if i = length argv then Inr mn
      else if i > length argv then Inl Undefined
      else
        (let el = argv ! i
         in if index_count (fst mn) el \<noteq> 0
            then Inl (argumentError s UnexpectedArgumentSpecifier)
            else
              (let (N, m) = index_at (fst mn) (final_name' s)
               in case vec_at (variables' s) N of
                    Inl e \<Rightarrow> Inl e
                  | Inr var \<Rightarrow>
                      (case (if arity fin = Fixed 1
                             then map_sum id (\<lambda>_. ()) (castTo_string var)
                             else map_sum id (\<lambda>_. ()) (castTo_vector var)) of
                         Inl e \<Rightarrow> Inl e
                       | Inr _ \<Rightarrow> parse_final s argv fin (Suc i) (m, snd mn - 1)))))"
  by pat_completeness auto
termination
  by (relation "measure (\<lambda>(s, argv, fin, i, mn). length argv - i)") auto

definition name_app :: "string list \<Rightarrow> ArgumentParser \<Rightarrow> ArgumentParser" where
  \<comment> \<open>the first statement of \<open>parse\<close>: "check if the app is named"\<close>
  "name_app argv s =
     (if app_name' s = [] \<and> ignore_first' s \<and> argv \<noteq> []
      then s\<lparr>app_name' := basename (argv ! 0)\<rparr> else s)"

definition parse :: "string list \<Rightarrow> ArgumentParser \<Rightarrow> failure + ArgumentParser" where
  "parse argv s0 =
     (let s = name_app argv s0
      in case final_argument s of
           Inl e \<Rightarrow> Inl e
         | Inr (fin, m0) \<Rightarrow>
             (let nfinal = nfinal_of fin;
                  first = (if ignore_first' s then 1 else 0)
              in case parse_keys s argv nfinal first
                        \<lparr>active = default_Argument, consumed = 0,
                         nrequired = nrequired_of s fin, idx = m0\<rparr> of
                   Inl e \<Rightarrow> Inl e
                 | Inr st \<Rightarrow>
                     (case parse_final s argv fin
                             (nat (max (int first)
                                    (int (length argv) - ptrdiff_of_size_t nfinal)))
                             (idx st, nfinal) of
                        Inl e \<Rightarrow> Inl e
                      | Inr (m2, nfinal2) \<Rightarrow>
                          if nrequired st > 0 \<or> nfinal2 > 0
                          then Inl (argumentError s MissingRequiredArguments)
                          else Inr (s\<lparr>index' := m2\<rparr>))))"

subsection \<open>Auxiliary functions\<close>

text \<open>
  These are not functions of the source. \<open>parse_keys_upto\<close> is the first loop of
  \<open>parse\<close> stopped when the iterator reaches position \<open>j\<close>: its result is the working
  set with which the loop arrives there. \<open>line_lengths\<close> measures a text: the lengths
  of its lines, a line ending at each newline character. \<open>addArguments\<close> declares
  flags (arity 0, not required) one after the other by \<open>addArgument\<close>.
  \<open>parse_loops\<close> is \<open>parse\<close> from its first loop on: the two loops and the last
  test, run on a working set that is given (the final argument, the index, \<open>nrequired\<close>
  and \<open>nfinal\<close>).
\<close>

definition parse_loops :: "ArgumentParser \<Rightarrow> string list \<Rightarrow> Argument \<Rightarrow> IndexMap \<Rightarrow> 64 word \<Rightarrow> nat \<Rightarrow> failure + ArgumentParser" where
  "parse_loops s argv fin m0 nreq nfinal =
     (let first = (if ignore_first' s then 1 else 0)
      in case parse_keys s argv nfinal first
                \<lparr>active = default_Argument, consumed = 0, nrequired = nreq, idx = m0\<rparr> of
           Inl e \<Rightarrow> Inl e
         | Inr st \<Rightarrow>
             (case parse_final s argv fin
                     (nat (max (int first)
                            (int (length argv) - ptrdiff_of_size_t nfinal)))
                     (idx st, nfinal) of
                Inl e \<Rightarrow> Inl e
              | Inr (m2, nfinal2) \<Rightarrow>
                  if nrequired st > 0 \<or> nfinal2 > 0
                  then Inl (argumentError s MissingRequiredArguments)
                  else Inr (s\<lparr>index' := m2\<rparr>)))"


fun line_lengths :: "string \<Rightarrow> nat list" where
  "line_lengths [] = [0]"
| "line_lengths (c # cs) =
     (if c = CHR 0x0A then 0 # line_lengths cs
      else (case line_lengths cs of [] \<Rightarrow> [1] | n # ns \<Rightarrow> Suc n # ns))"

fun addArguments :: "string list \<Rightarrow> ArgumentParser \<Rightarrow> failure + ArgumentParser" where
  "addArguments [] s = Inr s"
| "addArguments (nm # nms) s =
     (case addArgument nm (CHR 0x00) [] False [] s of
        Inl e \<Rightarrow> Inl e
      | Inr s' \<Rightarrow> addArguments nms s')"

subsection \<open>Parsers of the examples\<close>

text \<open>
  The states that the declarations named in the comments build; lemmas below show for
  each that the declaring calls return it.
\<close>

definition parser_pair :: ArgumentParser where
  \<comment> \<open>\<open>addArgument("-p", 2)\<close>\<close>
  "parser_pair = insertArgument (new_Argument ''-p'' [] False (CHR 0x02) [] []) new_ArgumentParser"

definition parser_input :: ArgumentParser where
  \<comment> \<open>\<open>addArgument("-i", "--input", 1, "123")\<close>, the example of the header's comment\<close>
  "parser_input =
     insertArgument (new_Argument ''-i'' ''--input'' False (CHR 0x01) ''123'' []) new_ArgumentParser"

definition parser_name :: ArgumentParser where
  \<comment> \<open>\<open>addArgument("--name", 1)\<close>\<close>
  "parser_name = insertArgument (new_Argument [] ''--name'' False (CHR 0x01) [] []) new_ArgumentParser"


definition parser_configured :: ArgumentParser where
  \<comment> \<open>\<open>appName("tool"); useExceptions(true)\<close>\<close>
  "parser_configured = useExceptions True (appName ''tool'' new_ArgumentParser)"

definition parser_file_v :: ArgumentParser where
  \<comment> \<open>\<open>addFinalArgument("file", 1, "", true); addArgument("-v", 0, "", false)\<close>\<close>
  "parser_file_v =
     insertArgument (new_Argument ''-v'' [] False (CHR 0x00) [] [])
       (addFinalArgument ''file'' (CHR 0x01) [] True [] new_ArgumentParser)"

definition parser_acb :: ArgumentParser where
  \<comment> \<open>\<open>addArgument("-a", 1, "", true); addArgument("-c", 0, "", true); addArgument("-b")\<close>\<close>
  "parser_acb =
     insertArgument (new_Argument ''-b'' [] False (CHR 0x00) [] [])
       (insertArgument (new_Argument ''-c'' [] True (CHR 0x00) [] [])
         (insertArgument (new_Argument ''-a'' [] True (CHR 0x01) [] []) new_ArgumentParser))"

definition parser_dup_final :: ArgumentParser where
  \<comment> \<open>\<open>addFinalArgument("file", 1, "", true); addArgument("--file", 0, "", false)\<close>\<close>
  "parser_dup_final =
     insertArgument (new_Argument [] ''--file'' False (CHR 0x00) [] [])
       (addFinalArgument ''file'' (CHR 0x01) [] True [] new_ArgumentParser)"

definition parser_stale :: ArgumentParser where
  \<comment> \<open>\<open>addFinalArgument("file"); clear(); addArgument("-v")\<close>\<close>
  "parser_stale =
     insertArgument (new_Argument ''-v'' [] False (CHR 0x00) [] [])
       (clear (addFinalArgument ''file'' (CHR 0x01) [] True [] new_ArgumentParser))"

definition parser_flags :: ArgumentParser where
  \<comment> \<open>\<open>appName("prog")\<close>, then eight flags with long names\<close>
  "parser_flags =
     foldl (\<lambda>s nm. insertArgument (new_Argument [] nm False (CHR 0x00) [] []) s)
       (appName ''prog'' new_ArgumentParser)
       [''--verbose'', ''--quiet'', ''--force'', ''--debug'', ''--color'', ''--trace'',
        ''--check'', ''--strict'']"

section \<open>Properties\<close>

declare parse_keys.simps [simp del]
declare parse_final.simps [simp del]

lemmas decl_defs = addArgument_def addArgument2_def addFinalArgument_def verify_def
  insertArgument_def new_Argument_def size_t_of_char_def new_ArgumentParser_def delimit_def Let_def

lemmas lookup_defs = index_count_def index_at_def vec_at_def fixed_def
  castTo_string_def castTo_vector_def

lemmas retrieval_defs = retrieve_def count_def lookup_defs delimit_def new_Argument_def size_t_of_char_def Let_def

lemmas parse_defs = parse_def name_app_def basename_def final_argument_def nrequired_of_def
  nfinal_of_def parse_keys.simps parse_final.simps parse_token_def default_Argument_def
  ptrdiff_of_size_t_def
  canonicalName_def argumentError_def new_Argument_def size_t_of_char_def Let_def

lemmas usage_defs = usage_def wrap_def toString_def escape_def upper_def strip_def toupper_def
  canonicalName_def new_Argument_def size_t_of_char_def Let_def

subsection \<open>The first statement of parse\<close>

lemma name_app_fields:
  "index' (name_app argv s) = index' s"
  "ignore_first' (name_app argv s) = ignore_first' s"
  "use_exceptions' (name_app argv s) = use_exceptions' s"
  "required' (name_app argv s) = required' s"
  "final_name' (name_app argv s) = final_name' s"
  "arguments' (name_app argv s) = arguments' s"
  "variables' (name_app argv s) = variables' s"
  by (simp_all add: name_app_def)

lemma name_app_lookups:
  "final_argument (name_app argv s) = final_argument s"
  "argumentError (name_app argv s) k = argumentError s k"
  "nrequired_of (name_app argv s) fin = nrequired_of s fin"
  by (simp_all add: final_argument_def argumentError_def nrequired_of_def name_app_fields)

subsection \<open>The loops of parse\<close>

text \<open>A failure of the loop body, and of the first loop, is the failure of \<open>parse\<close>.\<close>

text \<open>
  The converted \<open>nfinal\<close> is at most \<open>nfinal\<close>, so a position before the end less
  \<open>nfinal\<close> is one of the first loop.
\<close>

lemma ptrdiff_le: "ptrdiff_of_size_t n \<le> int n"
proof -
  have "sint (word_of_int (int n) :: 64 word) = signed_take_bit (LENGTH(64) - 1) (int n)"
    by (rule sint_sbintrunc')
  then have "ptrdiff_of_size_t n = signed_take_bit (LENGTH(64) - 1) (int n)"
    by (simp add: ptrdiff_of_size_t_def)
  also have "\<dots> \<le> int n"
    by (simp add: signed_take_bit_int_less_eq_self_iff)
  finally show ?thesis .
qed

lemma in_first_loop:
  "int i < int (length argv) - int nfinal \<Longrightarrow>
   int i < int (length argv) - ptrdiff_of_size_t nfinal"
  using ptrdiff_le [of nfinal] by simp

lemma parse_token_fails_keys:
  "int i < int (length argv) - ptrdiff_of_size_t nfinal \<Longrightarrow>
   parse_token s argv nfinal i st = Inl e \<Longrightarrow>
   parse_keys s argv nfinal i st = Inl e"
  by (subst parse_keys.simps) simp

lemma parse_fails_in_keys:
  "final_argument s = Inr (fin, m) \<Longrightarrow>
   parse_keys (name_app argv s) argv (nfinal_of fin) (if ignore_first' s then 1 else 0)
     \<lparr>active = default_Argument, consumed = 0, nrequired = nrequired_of s fin, idx = m\<rparr> = Inl e \<Longrightarrow>
   parse argv s = Inl e"
  by (simp add: parse_def Let_def name_app_lookups name_app_fields)


text \<open>\<open>operator[]\<close> only adds keys, so the index grows along \<open>parse\<close>.\<close>

lemma index_at_le: "index_at m k = (N, m') \<Longrightarrow> m \<subseteq>\<^sub>m m'"
  by (auto simp: index_at_def map_le_def split: option.splits)

lemma final_argument_le: "final_argument s = Inr (fin, m) \<Longrightarrow> index' s \<subseteq>\<^sub>m m"
  by (auto simp: final_argument_def Let_def split: if_splits prod.splits sum.splits
      dest: index_at_le)

lemma parse_token_idx_le:
  "parse_token s argv nfinal i st = Inr st' \<Longrightarrow> idx st \<subseteq>\<^sub>m idx st'"
  by (auto simp: parse_token_def Let_def split: sum.splits if_splits prod.splits
      dest: index_at_le)

lemma parse_keys_idx_le:
  "parse_keys s argv nfinal i st = Inr st' \<Longrightarrow> idx st \<subseteq>\<^sub>m idx st'"
proof (induction s argv nfinal i st rule: parse_keys.induct)
  case (1 s argv nfinal i st)
  show ?case
  proof (cases "int i < int (length argv) - ptrdiff_of_size_t nfinal")
    case True
    with "1.prems" obtain st1 where
      tok: "parse_token s argv nfinal i st = Inr st1"
      and rest: "parse_keys s argv nfinal (Suc i) st1 = Inr st'"
      by (subst (asm) parse_keys.simps) (auto split: sum.splits)
    from "1.IH" [OF True tok rest] parse_token_idx_le [OF tok] show ?thesis
      by (rule map_le_trans [rotated])
  next
    case False
    with "1.prems" have "st' = st"
      by (subst (asm) parse_keys.simps) simp
    then show ?thesis by simp
  qed
qed

lemma parse_final_idx_le:
  "parse_final s argv fin i mn = Inr mn' \<Longrightarrow> fst mn \<subseteq>\<^sub>m fst mn'"
proof (induction s argv fin i mn rule: parse_final.induct)
  case (1 s argv fin i mn)
  show ?case
  proof (cases "i < length argv")
    case True
    from "1.prems" True obtain N m var where
      free: "index_count (fst mn) (argv ! i) = 0"
      and at: "index_at (fst mn) (final_name' s) = (N, m)"
      and slot: "vec_at (variables' s) N = Inr var"
      and cast: "\<exists>u. (if arity fin = Fixed 1 then map_sum id (\<lambda>_. ()) (castTo_string var)
                       else map_sum id (\<lambda>_. ()) (castTo_vector var)) = Inr u"
      and rest: "parse_final s argv fin (Suc i) (m, snd mn - 1) = Inr mn'"
      by (subst (asm) parse_final.simps)
         (auto simp: Let_def split: sum.splits if_splits prod.splits)
    from cast obtain u where
      cast': "(if arity fin = Fixed 1 then map_sum id (\<lambda>_. ()) (castTo_string var)
               else map_sum id (\<lambda>_. ()) (castTo_vector var)) = Inr u" ..
    have "fst (m, snd mn - 1) \<subseteq>\<^sub>m fst mn'"
      using "1.IH" [OF _ _ refl _ at [symmetric] refl slot cast'] True free rest
      by simp
    with index_at_le [OF at] show ?thesis
      by (auto intro: map_le_trans)
  next
    case False
    with "1.prems" have "mn' = mn"
      by (subst (asm) parse_final.simps) (simp split: if_splits)
    then show ?thesis by simp
  qed
qed

text \<open>
  A \<open>parse\<close> that returns leaves the declarations and the value slots as they were,
  and keeps every entry of the index.
\<close>

lemma parse_preserves:
  assumes "parse argv s = Inr s'"
  shows "arguments' s' = arguments' s" and "variables' s' = variables' s"
    and "index' s \<subseteq>\<^sub>m index' s'"
proof -
  from assms obtain fin m0 st m2 nfinal2 where
    fa: "final_argument s = Inr (fin, m0)"
    and keys: "parse_keys (name_app argv s) argv (nfinal_of fin) (if ignore_first' s then 1 else 0)
        \<lparr>active = default_Argument, consumed = 0, nrequired = nrequired_of s fin, idx = m0\<rparr> = Inr st"
    and final: "parse_final (name_app argv s) argv fin
        (nat (max (int (if ignore_first' s then 1 else 0 :: nat))
           (int (length argv) - ptrdiff_of_size_t (nfinal_of fin))))
        (idx st, nfinal_of fin) = Inr (m2, nfinal2)"
    and s': "s' = (name_app argv s)\<lparr>index' := m2\<rparr>"
    by (auto simp: parse_def Let_def name_app_lookups name_app_fields
        split: sum.splits prod.splits if_splits)
  show "arguments' s' = arguments' s" "variables' s' = variables' s"
    by (simp_all add: s' name_app_fields)
  have "index' s \<subseteq>\<^sub>m m0" using fa by (rule final_argument_le)
  also have "m0 \<subseteq>\<^sub>m idx st" using parse_keys_idx_le [OF keys] by simp
  also have "idx st \<subseteq>\<^sub>m m2" using parse_final_idx_le [OF final] by simp
  finally show "index' s \<subseteq>\<^sub>m index' s'" by (simp add: s')
qed

text \<open>
  Every member function keeps one value slot for each declaration.
\<close>

lemma insertArgument_slots:
  "length (variables' s) = length (arguments' s) \<Longrightarrow>
   length (variables' (insertArgument arg s)) = length (arguments' (insertArgument arg s))"
  by (simp add: insertArgument_def Let_def)

lemma declarations_slots:
  assumes "length (variables' s) = length (arguments' s)"
  shows "addArgument nm n dflt req hlp s = Inr s1 \<Longrightarrow>
           length (variables' s1) = length (arguments' s1)"
    and "addArgument2 sn nm n dflt req hlp s = Inr s2 \<Longrightarrow>
           length (variables' s2) = length (arguments' s2)"
    and "length (variables' (addFinalArgument nm n dflt req hlp s))
           = length (arguments' (addFinalArgument nm n dflt req hlp s))"
    and "length (variables' (clear s)) = length (arguments' (clear s))"
    and "parse argv s = Inr s3 \<Longrightarrow> length (variables' s3) = length (arguments' s3)"
proof -
  show "addArgument nm n dflt req hlp s = Inr s1 \<Longrightarrow>
           length (variables' s1) = length (arguments' s1)"
    using assms
    by (auto simp: addArgument_def split: if_splits sum.splits intro: insertArgument_slots)
  show "addArgument2 sn nm n dflt req hlp s = Inr s2 \<Longrightarrow>
           length (variables' s2) = length (arguments' s2)"
    using assms
    by (auto simp: addArgument2_def split: sum.splits intro: insertArgument_slots)
  show "length (variables' (addFinalArgument nm n dflt req hlp s))
           = length (arguments' (addFinalArgument nm n dflt req hlp s))"
    using assms by (simp add: addFinalArgument_def Let_def insertArgument_slots)
  show "length (variables' (clear s)) = length (arguments' (clear s))"
    by (simp add: clear_def)
  show "parse argv s = Inr s3 \<Longrightarrow> length (variables' s3) = length (arguments' s3)"
    using assms by (simp add: parse_preserves)
qed

subsection \<open>The examples\<close>

lemma parser_file_v_state:
  "parser_file_v =
     \<lparr>index' = [''--file'' \<mapsto> 0, ''-v'' \<mapsto> 1], ignore_first' = True, use_exceptions' = False,
      required' = 1, app_name' = [], final_name' = ''--file'',
      arguments' = [new_Argument [] ''--file'' True (CHR 0x01) [] [],
                    new_Argument ''-v'' [] False (CHR 0x00) [] []],
      variables' = [HeldString [], HeldString []]\<rparr>"
  by (simp add: parser_file_v_def decl_defs)

lemma declare_file_v:
  "addArgument ''-v'' (CHR 0x00) [] False []
       (addFinalArgument ''file'' (CHR 0x01) [] True [] new_ArgumentParser) = Inr parser_file_v"
  by (simp add: parser_file_v_def addArgument_def verify_def)

lemma parse_file_v:
  "parse [''prog'', ''-v'', ''input.txt''] parser_file_v =
     Inr (parser_file_v\<lparr>app_name' := ''prog''\<rparr>)"
  by (simp add: parser_file_v_state parse_defs lookup_defs)

lemma retrieve_file_parsed:
  "fst (retrieve castTo_string ''file'' (parser_file_v\<lparr>app_name' := ''prog''\<rparr>)) = Inr []"
  by (simp add: parser_file_v_state retrieval_defs)

lemma count_v_parsed:
  "fst (count ''v'' (parser_file_v\<lparr>app_name' := ''prog''\<rparr>)) = Inr 0"
  by (simp add: parser_file_v_state retrieval_defs)


lemma declare_acb:
  "addArgument ''-a'' (CHR 0x01) [] True [] new_ArgumentParser
     = Inr (insertArgument (new_Argument ''-a'' [] True (CHR 0x01) [] []) new_ArgumentParser)"
  "addArgument ''-c'' (CHR 0x00) [] True []
       (insertArgument (new_Argument ''-a'' [] True (CHR 0x01) [] []) new_ArgumentParser)
     = Inr (insertArgument (new_Argument ''-c'' [] True (CHR 0x00) [] [])
             (insertArgument (new_Argument ''-a'' [] True (CHR 0x01) [] []) new_ArgumentParser))"
  "addArgument ''-b'' (CHR 0x00) [] False []
       (insertArgument (new_Argument ''-c'' [] True (CHR 0x00) [] [])
         (insertArgument (new_Argument ''-a'' [] True (CHR 0x01) [] []) new_ArgumentParser))
     = Inr parser_acb"
  by (simp_all add: parser_acb_def addArgument_def verify_def)








lemma parser_dup_final_state:
  "parser_dup_final =
     \<lparr>index' = [''--file'' \<mapsto> 1], ignore_first' = True, use_exceptions' = False,
      required' = 1, app_name' = [], final_name' = ''--file'',
      arguments' = [new_Argument [] ''--file'' True (CHR 0x01) [] [],
                    new_Argument [] ''--file'' False (CHR 0x00) [] []],
      variables' = [HeldString [], HeldString []]\<rparr>"
  by (simp add: parser_dup_final_def decl_defs)

lemma declare_dup_final:
  "addArgument ''--file'' (CHR 0x00) [] False []
       (addFinalArgument ''file'' (CHR 0x01) [] True [] new_ArgumentParser) = Inr parser_dup_final"
  by (simp add: parser_dup_final_def addArgument_def verify_def)

lemma parser_stale_state:
  "parser_stale =
     \<lparr>index' = [''-v'' \<mapsto> 0], ignore_first' = True, use_exceptions' = False,
      required' = 0, app_name' = [], final_name' = ''--file'',
      arguments' = [new_Argument ''-v'' [] False (CHR 0x00) [] []],
      variables' = [HeldString []]\<rparr>"
  by (simp add: parser_stale_def clear_def decl_defs)

lemma declare_stale:
  "addArgument ''-v'' (CHR 0x00) [] False []
     (clear (addFinalArgument ''file'' (CHR 0x01) [] True [] new_ArgumentParser)) = Inr parser_stale"
  by (simp add: parser_stale_def addArgument_def verify_def)

lemma usage_stale:
  "usage parser_stale =
     (Inr ''Usage:  [-v]'', parser_stale\<lparr>index' := [''-v'' \<mapsto> 0, ''--file'' \<mapsto> 0]\<rparr>)"
  by (simp add: parser_stale_state usage_defs index_at_def vec_at_def)

lemma declare_flags:
  "addArguments [''--verbose'', ''--quiet'', ''--force'', ''--debug'', ''--color'', ''--trace'',
                 ''--check'', ''--strict'']
     (appName ''prog'' new_ArgumentParser) = Inr parser_flags"
  by (simp add: parser_flags_def addArgument_def verify_def)

lemma usage_flags:
  "fst (usage parser_flags) =
     Inr ''Usage: prog [--verbose] [--quiet] [--force] [--debug] [--color] [--trace] [--check] [--strict]''"
  by (simp add: parser_flags_def appName_def insertArgument_def new_ArgumentParser_def usage_defs)

section \<open>The claims\<close>

subsection \<open>Retrieval\<close>

text \<open>
  C1 (the code departs from the claim). \<open>retrieve\<close> throws "Key not found" for a name
  that is not declared, as the claim says. For a declared name it throws "Value not found"
  when \<open>count(name)\<close> is not 0, that is when the slot holds a value, and returns the
  slot when it is empty: the test on \<open>count\<close> is the negation of the one the claim and
  the header's own example (\<open>retrieve<int>("input")\<close>, "default 123") describe.
  After \<open>addArgument("-i", "--input", 1, "123")\<close> the slot holds \<open>"123"\<close> and
  \<open>retrieve<std::string>("input")\<close> throws "Value not found"; after
  \<open>addArgument("--name", 1)\<close> the slot is empty and \<open>retrieve<std::string>("name")\<close>
  returns the empty string.
\<close>

theorem retrieve_stored_value_not_found:
  "addArgument2 ''-i'' ''--input'' (CHR 0x01) ''123'' False [] new_ArgumentParser = Inr parser_input
   \<and> variables' parser_input = [HeldString ''123'']
   \<and> fst (retrieve castTo_string ''input'' parser_input) = Inl ValueNotFound
   \<and> addArgument ''--name'' (CHR 0x01) [] False [] new_ArgumentParser = Inr parser_name
   \<and> variables' parser_name = [HeldString []]
   \<and> fst (retrieve castTo_string ''name'' parser_name) = Inr []"
  by (simp add: parser_input_def parser_name_def decl_defs retrieve_def count_def lookup_defs)

text \<open>
  C4 (the code departs from the claim). \<open>insertArgument\<close> gives an argument of fixed
  arity above 1 a list slot, and \<open>count\<close> chooses the cast by \<open>arg.fixed\<close> alone: for
  such an argument it casts the list slot to a string, and \<open>castTo\<close> throws
  \<open>std::bad_cast\<close>. After \<open>addArgument("-p", 2)\<close>, \<open>count("p")\<close> throws where the claim
  has it return the length 0 of the list.
\<close>

theorem count_fixed_pair_bad_cast:
  "addArgument ''-p'' (CHR 0x02) [] False [] new_ArgumentParser = Inr parser_pair
   \<and> variables' parser_pair = [HeldVector []]
   \<and> fst (count ''p'' parser_pair) = Inl BadCast"
  by (simp add: parser_pair_def decl_defs count_def lookup_defs)

text \<open>
  Whether retrieval changes the parser. \<open>count\<close> and \<open>retrieve\<close> use \<open>index_[key]\<close> only
  for a key they have found in the index, and leave every parser as it is; so does
  \<open>usage\<close> when \<open>final_name_\<close> is empty or a key of the index.
\<close>

lemma count_state: "snd (count nm s) = s"
  by (auto simp: count_def index_count_def index_at_def Let_def split: option.splits sum.splits)

lemma retrieve_state: "snd (retrieve cast nm s) = s"
proof -
  obtain r where c: "count nm s = (r, s)"
    using count_state [of nm s] by (cases "count nm s") simp
  show ?thesis
    by (cases r)
       (auto simp: retrieve_def c index_count_def index_at_def Let_def
          split: option.splits sum.splits)
qed

lemma usage_state:
  "final_name' s = [] \<or> index' s (final_name' s) \<noteq> None \<Longrightarrow> snd (usage s) = s"
  by (auto simp: usage_def index_at_def Let_def split: option.splits sum.splits)

text \<open>
  C9 (the code departs from the claim). \<open>clear\<close> empties the index and keeps
  \<open>final_name_\<close>; \<open>usage\<close> then reads \<open>index_[final_name_]\<close>, and \<open>operator[]\<close> inserts
  the missing key. After \<open>addFinalArgument("file"); clear(); addArgument("-v")\<close> the name
  "file" is not declared; \<open>usage()\<close> returns its text and leaves a parser in which
  \<open>exists("file")\<close> holds.
\<close>

theorem usage_extends_index:
  "addArgument ''-v'' (CHR 0x00) [] False []
     (clear (addFinalArgument ''file'' (CHR 0x01) [] True [] new_ArgumentParser)) = Inr parser_stale
   \<and> exists ''file'' parser_stale = False
   \<and> fst (usage parser_stale) = Inr ''Usage:  [-v]''
   \<and> exists ''file'' (snd (usage parser_stale)) = True
   \<and> snd (usage parser_stale) \<noteq> parser_stale"
proof -
  have before: "exists ''file'' parser_stale = False"
    by (simp add: parser_stale_state exists_def index_count_def delimit_def)
  have after: "exists ''file'' (snd (usage parser_stale)) = True"
    by (simp add: usage_stale) (simp add: parser_stale_state exists_def index_count_def delimit_def)
  have "snd (usage parser_stale) \<noteq> parser_stale"
    using before after by auto
  then show ?thesis
    using before after declare_stale by (simp add: usage_stale)
qed

subsection \<open>The example of a final argument and a flag\<close>

text \<open>
  C2, as stated, fails. After the two declarations, \<open>parse\<close> of
  \<open>["prog", "-v", "input.txt"]\<close> returns; then \<open>retrieve<std::string>("file")\<close> returns
  the empty string, not \<open>"input.txt"\<close>, and \<open>count("v")\<close> is 0.
\<close>

theorem file_v_example_values:
  "addArgument ''-v'' (CHR 0x00) [] False []
       (addFinalArgument ''file'' (CHR 0x01) [] True [] new_ArgumentParser) = Inr parser_file_v
   \<and> parse [''prog'', ''-v'', ''input.txt''] parser_file_v
       = Inr (parser_file_v\<lparr>app_name' := ''prog''\<rparr>)
   \<and> fst (retrieve castTo_string ''file'' (parser_file_v\<lparr>app_name' := ''prog''\<rparr>))
       \<noteq> Inr ''input.txt''
   \<and> fst (count ''v'' (parser_file_v\<lparr>app_name' := ''prog''\<rparr>)) = Inr 0"
  by (simp add: declare_file_v parse_file_v retrieve_file_parsed count_v_parsed)

text \<open>
  C2, amended: after declaring the final argument \<open>file\<close> (arity 1, required) and the
  argument \<open>-v\<close> (arity 0, not required), \<open>parse\<close> of \<open>["prog", "-v", "input.txt"]\<close>
  succeeds, and \<open>count("v")\<close> is 0 afterwards: a key of arity 0 has no value, and
  nothing records that it was met. (What \<open>retrieve("file")\<close> returns is left out: the
  loops of \<open>parse\<close> assign to the copy that \<open>castTo\<close> returns.)
\<close>

theorem file_v_example_parsed:
  "addArgument ''-v'' (CHR 0x00) [] False []
       (addFinalArgument ''file'' (CHR 0x01) [] True [] new_ArgumentParser) = Inr parser_file_v
   \<and> parse [''prog'', ''-v'', ''input.txt''] parser_file_v
       = Inr (parser_file_v\<lparr>app_name' := ''prog''\<rparr>)
   \<and> fst (count ''v'' (parser_file_v\<lparr>app_name' := ''prog''\<rparr>)) = Inr 0"
  by (simp add: declare_file_v parse_file_v count_v_parsed)

subsection \<open>Defaults\<close>





subsection \<open>Clearing\<close>

text \<open>
  C5, as stated, fails: \<open>clear\<close> does not assign \<open>app_name_\<close> and \<open>use_exceptions_\<close>.
  A parser named "tool" that throws exceptions is still so after \<open>clear()\<close>, and differs
  from a newly constructed one.
\<close>

theorem clear_keeps_configuration:
  "app_name' (clear parser_configured) = ''tool''
   \<and> use_exceptions' (clear parser_configured) = True
   \<and> clear parser_configured \<noteq> new_ArgumentParser"
  by (simp add: parser_configured_def clear_def useExceptions_def appName_def new_ArgumentParser_def)

text \<open>
  C5, amended: after \<open>clear()\<close> there are no declarations, no index entries and no
  stored values, the counter of required arguments is 0 and the first token is skipped
  again; the application name and the error mode are those of before. (The name of the
  final argument is left out.)
\<close>

theorem clear_resets:
  "index' (clear s) = Map.empty \<and> arguments' (clear s) = [] \<and> variables' (clear s) = []
   \<and> required' (clear s) = 0 \<and> ignore_first' (clear s) = True
   \<and> app_name' (clear s) = app_name' s \<and> use_exceptions' (clear s) = use_exceptions' s"
  by (simp add: clear_def)

subsection \<open>Usage text\<close>

text \<open>
  C6 (the code departs from the claim). The counter \<open>linelength\<close> of \<open>usage\<close> adds up the
  lengths of the argument texts only: it starts at 0 behind "Usage: " and the application
  name, leaves out the blanks between the arguments, and is set to 0 after a line break,
  behind the indentation and the argument that was moved to the new line. For the
  application "prog" with eight flags, whose texts add up to 75 characters, \<open>usage()\<close> is a
  single line of 94 characters.
\<close>

theorem usage_line_exceeds_80:
  "addArguments [''--verbose'', ''--quiet'', ''--force'', ''--debug'', ''--color'', ''--trace'',
                 ''--check'', ''--strict'']
     (appName ''prog'' new_ArgumentParser) = Inr parser_flags
   \<and> fst (usage parser_flags) =
     Inr ''Usage: prog [--verbose] [--quiet] [--force] [--debug] [--color] [--trace] [--check] [--strict]''
   \<and> line_lengths
       ''Usage: prog [--verbose] [--quiet] [--force] [--debug] [--color] [--trace] [--check] [--strict]''
     = [94]"
proof (intro conjI)
  show "line_lengths
       ''Usage: prog [--verbose] [--quiet] [--force] [--debug] [--color] [--trace] [--check] [--strict]''
     = [94]"
    by simp
qed (rule declare_flags, rule usage_flags)

subsection \<open>The start of parse\<close>

text \<open>
  What \<open>parse\<close> looks up as the final argument, and what it then runs.
\<close>

lemma final_argument_registered:
  assumes "final_name' s = [] \<or> (index' s (final_name' s) = Some k \<and> k < length (arguments' s))"
  shows "final_argument s =
           Inr (if final_name' s = [] then default_Argument else arguments' s ! k, index' s)"
  using assms by (auto simp: final_argument_def index_at_def vec_at_def)

lemma parse_start:
  "final_argument s = Inr (fin, m) \<Longrightarrow>
   parse argv s = parse_loops (name_app argv s) argv fin m (nrequired_of s fin) (nfinal_of fin)"
  by (simp add: parse_def parse_loops_def Let_def name_app_lookups name_app_fields)

text \<open>
  The second loop, when it returns, has run to the end of the vector and has taken one
  from \<open>nfinal\<close> for each token; so \<open>parse\<close> returns only when \<open>nfinal\<close> tokens
  were there behind the skipped one.
\<close>

lemma parse_final_count:
  "parse_final s argv fin i mn = Inr mn' \<Longrightarrow>
   i \<le> length argv \<and> snd mn' = snd mn - (length argv - i)"
proof (induction s argv fin i mn rule: parse_final.induct)
  case (1 s argv fin i mn)
  show ?case
  proof (cases "i < length argv")
    case True
    from "1.prems" True obtain N m var where
      free: "index_count (fst mn) (argv ! i) = 0"
      and at: "index_at (fst mn) (final_name' s) = (N, m)"
      and slot: "vec_at (variables' s) N = Inr var"
      and cast: "\<exists>u. (if arity fin = Fixed 1 then map_sum id (\<lambda>_. ()) (castTo_string var)
                       else map_sum id (\<lambda>_. ()) (castTo_vector var)) = Inr u"
      and rest: "parse_final s argv fin (Suc i) (m, snd mn - 1) = Inr mn'"
      by (subst (asm) parse_final.simps)
         (auto simp: Let_def split: sum.splits if_splits prod.splits)
    from cast obtain u where
      cast': "(if arity fin = Fixed 1 then map_sum id (\<lambda>_. ()) (castTo_string var)
               else map_sum id (\<lambda>_. ()) (castTo_vector var)) = Inr u" ..
    have "snd mn' = snd (m, snd mn - 1) - (length argv - Suc i)"
      using "1.IH" [OF _ _ refl _ at [symmetric] refl slot cast'] True free rest
      by simp
    with True show ?thesis by simp
  next
    case False
    with "1.prems" have "i = length argv \<and> mn' = mn"
      by (subst (asm) parse_final.simps) (simp split: if_splits)
    then show ?thesis by simp
  qed
qed

lemma parse_loops_returns:
  assumes "parse_loops s argv fin m0 nreq nfinal = Inr s'"
  shows "(if ignore_first' s then 1 else 0) + nfinal \<le> length argv"
proof -
  define first :: nat where "first = (if ignore_first' s then 1 else 0)"
  define start :: nat
    where "start = nat (max (int first) (int (length argv) - ptrdiff_of_size_t nfinal))"
  from assms have
    "(case parse_keys s argv nfinal first
             \<lparr>active = default_Argument, consumed = 0, nrequired = nreq, idx = m0\<rparr> of
        Inl e \<Rightarrow> Inl e
      | Inr st \<Rightarrow>
          (case parse_final s argv fin start (idx st, nfinal) of
             Inl e \<Rightarrow> Inl e
           | Inr (m2, nfinal2) \<Rightarrow>
               if nrequired st > 0 \<or> nfinal2 > 0
               then Inl (argumentError s MissingRequiredArguments)
               else Inr (s\<lparr>index' := m2\<rparr>))) = Inr s'"
    unfolding parse_loops_def Let_def first_def start_def .
  then obtain st :: parse_state and m2 where
    final: "parse_final s argv fin start (idx st, nfinal) = Inr (m2, 0)"
    by (auto split: sum.splits prod.splits if_splits)
  from parse_final_count [OF final]
  have "start \<le> length argv" and "nfinal - (length argv - start) = 0"
    by simp_all
  moreover have "first \<le> start"
    by (simp add: start_def)
  ultimately have "first + nfinal \<le> length argv"
    by simp
  then show ?thesis
    by (simp add: first_def)
qed

text \<open>
  C7, as stated, fails: \<open>parse\<close> takes for the final argument the declaration that the
  index holds under \<open>final_name_\<close>, and a later declaration of the same name takes the
  name over. After \<open>addFinalArgument("file", 1, "", true)\<close> and
  \<open>addArgument("--file", 0, "", false)\<close> the final argument that was registered is
  required and of fixed arity 1; \<open>parse\<close> looks up the flag, which is not required, so
  that \<open>nfinal\<close> is 0, and \<open>parse\<close> of \<open>["prog", "input.txt"]\<close> fails in its first
  loop at the token that the claim has reserved.
\<close>

theorem final_name_taken_over:
  "addArgument ''--file'' (CHR 0x00) [] False []
       (addFinalArgument ''file'' (CHR 0x01) [] True [] new_ArgumentParser) = Inr parser_dup_final
   \<and> final_name' parser_dup_final = ''--file''
   \<and> arguments' parser_dup_final ! 0 = new_Argument [] ''--file'' True (CHR 0x01) [] []
   \<and> final_argument parser_dup_final
       = Inr (new_Argument [] ''--file'' False (CHR 0x00) [] [], index' parser_dup_final)
   \<and> nfinal_of (new_Argument [] ''--file'' False (CHR 0x00) [] []) = 0
   \<and> parse [''prog'', ''input.txt''] parser_dup_final = Inl (Exit TooManyInputs)"
proof (intro conjI)
  show "addArgument ''--file'' (CHR 0x00) [] False []
       (addFinalArgument ''file'' (CHR 0x01) [] True [] new_ArgumentParser) = Inr parser_dup_final"
    by (rule declare_dup_final)
  show "parse [''prog'', ''input.txt''] parser_dup_final = Inl (Exit TooManyInputs)"
    by (simp add: parser_dup_final_state parse_defs lookup_defs)
  show "final_argument parser_dup_final
       = Inr (new_Argument [] ''--file'' False (CHR 0x00) [] [], index' parser_dup_final)"
    by (simp add: parser_dup_final_state final_argument_def lookup_defs)
qed (simp_all add: parser_dup_final_state nfinal_of_def new_Argument_def)

text \<open>
  C7, amended. Let \<open>final_name_\<close> be empty or a key of the index, and let the final
  argument be the declaration that the index holds under this name (the one that
  \<open>addFinalArgument\<close> made, unless a later declaration has taken the name), or
  \<open>Argument()\<close> when the name is empty. Then \<open>parse\<close> runs its loops with \<open>nfinal\<close>
  equal to 0 when no final name is set or the final argument is not required, and
  otherwise to its fixed arity, to 1 for the variable arity \<open>+\<close> and to 0 for the variable
  arity \<open>*\<close>; and \<open>parse\<close> returns only for a vector that has \<open>nfinal\<close> tokens behind
  the skipped one.
\<close>

theorem nfinal_at_start:
  assumes reg: "final_name' s = [] \<or>
                (index' s (final_name' s) = Some k \<and> k < length (arguments' s))"
    and fin: "fin = (if final_name' s = [] then default_Argument else arguments' s ! k)"
    and nf: "nf = (if final_name' s = [] \<or> \<not> required fin then 0
                   else (case arity fin of
                           Fixed n \<Rightarrow> n
                         | Variable v \<Rightarrow> (if v = CHR ''+'' then 1 else 0)))"
  shows "parse argv s
           = parse_loops (name_app argv s) argv fin (index' s) (nrequired_of s fin) nf
       \<and> (parse argv s = Inr s' \<longrightarrow> (if ignore_first' s then 1 else 0) + nf \<le> length argv)"
proof -
  have fa: "final_argument s = Inr (fin, index' s)"
    using final_argument_registered [OF reg] fin by simp
  have "nfinal_of fin = nf"
    using fin nf by (simp add: nfinal_of_def default_Argument_def)
  with parse_start [OF fa]
  have run: "parse argv s
      = parse_loops (name_app argv s) argv fin (index' s) (nrequired_of s fin) nf"
    by simp
  have "(if ignore_first' s then 1 else 0) + nf \<le> length argv" if "parse argv s = Inr s'"
    using parse_loops_returns [of "name_app argv s" argv fin "index' s" "nrequired_of s fin" nf s']
      that run
    by (simp add: name_app_fields)
  with run show ?thesis
    by simp
qed

theorem nfinal_at_start_witness:
  "parse [''prog''] parser_file_v
     = parse_loops (name_app [''prog''] parser_file_v) [''prog'']
         (new_Argument [] ''--file'' True (CHR 0x01) [] []) (index' parser_file_v) 0 1
   \<and> parse [''prog''] parser_file_v \<noteq> Inr parser_file_v"
proof -
  let ?fin = "new_Argument [] ''--file'' True (CHR 0x01) [] []"
  have reg: "final_name' parser_file_v = [] \<or>
      (index' parser_file_v (final_name' parser_file_v) = Some 0
       \<and> 0 < length (arguments' parser_file_v))"
    by (simp add: parser_file_v_state)
  have fin: "?fin = (if final_name' parser_file_v = [] then default_Argument
                     else arguments' parser_file_v ! 0)"
    by (simp add: parser_file_v_state)
  have nf: "(1::nat) = (if final_name' parser_file_v = [] \<or> \<not> required ?fin then 0
                   else (case arity ?fin of
                           Fixed n \<Rightarrow> n
                         | Variable v \<Rightarrow> (if v = CHR ''+'' then 1 else 0)))"
    by (simp add: parser_file_v_state new_Argument_def size_t_of_char_def)
  have nreq: "nrequired_of parser_file_v ?fin = 0"
    by (simp add: parser_file_v_state nrequired_of_def new_Argument_def)
  have skip: "ignore_first' parser_file_v"
    by (simp add: parser_file_v_state)
  from nfinal_at_start [OF reg fin nf, of "[''prog'']" parser_file_v]
  have run: "parse [''prog''] parser_file_v
      = parse_loops (name_app [''prog''] parser_file_v) [''prog''] ?fin (index' parser_file_v)
          (nrequired_of parser_file_v ?fin) 1"
    and ret: "parse [''prog''] parser_file_v = Inr parser_file_v \<longrightarrow>
          (if ignore_first' parser_file_v then 1 else 0) + 1 \<le> length [''prog'']"
    by blast+
  from ret skip have "parse [''prog''] parser_file_v \<noteq> Inr parser_file_v"
    by auto
  with run [unfolded nreq] show ?thesis
    by (rule conjI)
qed

text \<open>
  Where \<open>final_name_\<close> is empty or a key of the index, a first token of the first loop
  that is not a declared key makes \<open>parse\<close> fail with "attempt to pass too many inputs":
  the active argument is then \<open>Argument()\<close>, of fixed arity 0.
\<close>

lemma free_token_rejected:
  assumes reg: "final_name' s = [] \<or>
                (index' s (final_name' s) = Some k \<and> k < length (arguments' s))"
    and fin: "fin = (if final_name' s = [] then default_Argument else arguments' s ! k)"
    and range: "int (if ignore_first' s then 1 else 0)
                  < int (length argv) - int (nfinal_of fin)"
    and free: "index' s (argv ! (if ignore_first' s then 1 else 0)) = None"
  shows "parse argv s = Inl (argumentError s TooManyInputs)"
proof -
  let ?s = "name_app argv s"
  let ?i = "if ignore_first' s then 1 else 0 :: nat"
  let ?st = "\<lparr>active = default_Argument, consumed = 0, nrequired = nrequired_of s fin,
              idx = index' s\<rparr>"
  have fa: "final_argument s = Inr (fin, index' s)"
    using final_argument_registered [OF reg] fin by simp
  have i: "?i < length argv"
    using range by (simp split: if_splits)
  have tok: "parse_token ?s argv (nfinal_of fin) ?i ?st = Inl (argumentError s TooManyInputs)"
    using i free
    by (simp add: parse_token_def vec_at_def index_count_def default_Argument_def name_app_lookups)
  have keys: "parse_keys ?s argv (nfinal_of fin) ?i ?st = Inl (argumentError s TooManyInputs)"
    using in_first_loop [OF range] tok by (rule parse_token_fails_keys)
  show ?thesis
    using fa keys by (rule parse_fails_in_keys)
qed

lemma free_token_rejected_example:
  "parse [''prog'', ''data'', ''input.txt''] parser_file_v = Inl (Exit TooManyInputs)"
  by (simp add: parser_file_v_state parse_defs lookup_defs)

text \<open>
  C10 (the code departs from the claim). \<open>clear\<close> empties the index and keeps
  \<open>final_name_\<close>; the start of \<open>parse\<close> then reads \<open>index_[final_name_]\<close>, and
  \<open>operator[]\<close> inserts the name as a key of the first declaration. After
  \<open>addFinalArgument("file"); clear(); addArgument("-v")\<close> the token \<open>--file\<close> matches no
  declared key; \<open>parse\<close> of \<open>["prog", "--file"]\<close> takes it for a key of \<open>-v\<close> and
  returns, where the claim has it fail with "attempt to pass too many inputs".
\<close>

theorem parse_accepts_stale_final_name:
  "addArgument ''-v'' (CHR 0x00) [] False []
     (clear (addFinalArgument ''file'' (CHR 0x01) [] True [] new_ArgumentParser)) = Inr parser_stale
   \<and> index' parser_stale ''--file'' = None
   \<and> exists ''file'' parser_stale = False
   \<and> parse [''prog'', ''--file''] parser_stale
       = Inr (parser_stale\<lparr>app_name' := ''prog'',
                             index' := [''-v'' \<mapsto> 0, ''--file'' \<mapsto> 0]\<rparr>)"
proof (intro conjI)
  show "addArgument ''-v'' (CHR 0x00) [] False []
     (clear (addFinalArgument ''file'' (CHR 0x01) [] True [] new_ArgumentParser)) = Inr parser_stale"
    by (rule declare_stale)
  show "parse [''prog'', ''--file''] parser_stale
       = Inr (parser_stale\<lparr>app_name' := ''prog'',
                             index' := [''-v'' \<mapsto> 0, ''--file'' \<mapsto> 0]\<rparr>)"
    by (simp add: parser_stale_state parse_defs lookup_defs)
qed (simp_all add: parser_stale_state exists_def index_count_def delimit_def)

subsection \<open>Required keys first\<close>




end
